theory Spec2Isabelle
  imports Complex_Main
begin

section \<open>PropData estimator: the valuation engine of \<^verbatim>\<open>app.py\<close>\<close>

text \<open>
  The theory embeds the computational part of \<^verbatim>\<open>app.py\<close>: the rate tables, the market
  configuration, \<^verbatim>\<open>ValuationEngine.calculate_depreciation_factor\<close>,
  \<^verbatim>\<open>ValuationEngine.calculate_estimate\<close>, \<^verbatim>\<open>ValuationEngine.generate_forecast\<close>
  and \<^verbatim>\<open>format_pk\<close>.

  Conventions of the embedding.
  \<^item> Python's \<^verbatim>\<open>int\<close> is \<^typ>\<open>int\<close>. Python's \<^verbatim>\<open>float\<close> is \<^typ>\<open>real\<close>: a decimal literal
    such as \<^verbatim>\<open>1.10\<close> denotes the rational it is written as and \<^verbatim>\<open>+\<close>, \<^verbatim>\<open>*\<close>, \<^verbatim>\<open>/\<close> are
    exact. The rounding of binary64 arithmetic, infinities and NaN are not represented:
    every equation below between computed amounts is an equation of exact arithmetic.
  \<^item> A Python \<^verbatim>\<open>dict\<close> written as a literal or a comprehension is built from its items in
    order, a later item replacing an earlier one with the same key.
  \<^item> What the code reads from its environment is a parameter of the model: the current
    calendar year and date (\<^verbatim>\<open>datetime.date.today()\<close>) and every value drawn from NumPy's
    random generator.
  \<^item> An exception is a value of type \<open>error\<close>; a function that can raise returns
    \<open>error + 'a\<close>.
\<close>

subsection \<open>Dictionaries\<close>

definition dict :: "('k \<times> 'v) list \<Rightarrow> ('k \<rightharpoonup> 'v)" where
  "dict items = map_of (rev items)"

text \<open>\<^verbatim>\<open>d.get(key, default)\<close>\<close>

definition dict_get :: "('k \<rightharpoonup> 'v) \<Rightarrow> 'k \<Rightarrow> 'v \<Rightarrow> 'v" where
  "dict_get d key dflt = (case d key of None \<Rightarrow> dflt | Some v \<Rightarrow> v)"

subsection \<open>Rate tables\<close>

definition MARKET_CLUSTERS :: "(string \<times> (string \<times> int) list) list" where
  "MARKET_CLUSTERS =
    [(''Elite / Premium'',
       [(''DHA Phase 8'', 190000), (''DHA Phase 6'', 165000), (''DHA Phase 5'', 160000),
        (''DHA Phase 2'', 145000), (''Clifton Block 2'', 170000), (''Clifton Block 5'', 165000),
        (''KDA Scheme 1'', 150000), (''Navy Housing (Karsaz)'', 155000), (''Askari 4'', 125000),
        (''Askari 5'', 120000), (''PECHS Block 2'', 130000), (''PECHS Block 6'', 140000)]),
     (''Upper Mid-Range'',
       [(''Bahadurabad'', 110000), (''Mohammad Ali Society'', 115000),
        (''Al-Hilal Society'', 105000), (''Gulshan Block 13D'', 95000),
        (''Gulshan Block 10'', 90000), (''North Nazimabad (Hyderi)'', 100000),
        (''North Nazimabad Block H'', 95000), (''Garden West'', 95000),
        (''Federal B Area'', 90000)]),
     (''Mid-Range'',
       [(''Gulistan-e-Jauhar Blk 1'', 80000), (''Gulistan-e-Jauhar Blk 15'', 75000),
        (''Scheme 33 (Saadi Town)'', 65000), (''Scheme 33 (Metrovil)'', 60000),
        (''Bahria Town (Precinct 1)'', 110000), (''Bahria Town (Precinct 10)'', 85000),
        (''Malir Cantt'', 95000), (''Bufferzone'', 70000), (''North Karachi'', 60000)]),
     (''Affordable'',
       [(''New Karachi'', 45000), (''Surjani Town'', 35000), (''Korangi Crossing'', 55000),
        (''Korangi Industrial'', 60000), (''Orangi Town'', 30000), (''Lyari'', 35000),
        (''Taiser Town'', 25000), (''Baldia Town'', 30000)])]"

text \<open>
  \<^verbatim>\<open>BASE_RATES = {loc: price for cluster in MARKET_CLUSTERS.values()
                           for loc, price in cluster.items()}\<close>
\<close>

definition BASE_RATES_items :: "(string \<times> int) list" where
  "BASE_RATES_items =
     [(loc, price). cluster \<leftarrow> map snd MARKET_CLUSTERS, (loc, price) \<leftarrow> cluster]"

definition BASE_RATES :: "string \<rightharpoonup> int" where
  "BASE_RATES = dict BASE_RATES_items"

subsection \<open>Market configuration\<close>

record MarketConfig =
  QUALITY_MULTIPLIERS :: "string \<rightharpoonup> real"
  ROAD_WIDTH_FACTORS :: "string \<rightharpoonup> real"
  COMMERCIAL_MULTIPLIER :: real
  ROOM_PREMIUM :: int

text \<open>\<^verbatim>\<open>MarketConfig()\<close>: the dataclass with the defaults of its fields.\<close>

definition MarketConfig_default :: MarketConfig where
  "MarketConfig_default =
     \<lparr>QUALITY_MULTIPLIERS = dict
        [(''A+ (Luxury)'', 1.60), (''A (Premium)'', 1.30), (''B (Standard)'', 1.00),
         (''C (Basic)'', 0.85)],
      ROAD_WIDTH_FACTORS = dict
        [(''Main Boulevard (100ft+)'', 1.15), (''Wide Road (60-80ft)'', 1.08),
         (''Standard Street (30-40ft)'', 1.00), (''Narrow Lane (<30ft)'', 0.95)],
      COMMERCIAL_MULTIPLIER = 1.60,
      ROOM_PREMIUM = 1200000\<rparr>"

subsection \<open>Requests, results and errors\<close>

text \<open>
  \<^verbatim>\<open>params\<close> is a \<^verbatim>\<open>Dict[str, Any]\<close>. The model gives each key the type of the value the
  application stores under it; \<open>None\<close> says that the key is absent from the dictionary.
\<close>

record params =
  location :: "string option"
  area :: "int option"
  type :: "string option"
  road_width :: "string option"
  year_built :: "int option"
  bedrooms :: "int option"
  quality :: "string option"
  is_corner :: "bool option"
  is_park :: "bool option"
  is_west_open :: "bool option"

datatype error = KeyError string | ValueError | OutOfBoundsDatetime

record breakdown =
  base_rate :: int
  land :: real
  "structure" :: real
  features :: real
  depreciation_factor :: real
  pre_variance :: real

record estimate =
  price :: real
  breakdown :: breakdown

text \<open>\<^verbatim>\<open>params[key]\<close> raises \<^verbatim>\<open>KeyError\<close> for an absent key.\<close>

definition subscript :: "'a option \<Rightarrow> string \<Rightarrow> error + 'a" where
  "subscript field key = (case field of None \<Rightarrow> Inl (KeyError key) | Some v \<Rightarrow> Inr v)"

text \<open>
  \<^verbatim>\<open>if params.get(key):\<close> for a key that holds a \<^verbatim>\<open>bool\<close>: an absent key gives \<^verbatim>\<open>None\<close>,
  which is false.
\<close>

definition truthy :: "bool option \<Rightarrow> bool" where
  "truthy field = (case field of None \<Rightarrow> False | Some b \<Rightarrow> b)"

subsection \<open>The valuation engine\<close>

text \<open>
  \<^verbatim>\<open>calculate_depreciation_factor(self, construction_year)\<close>; \<open>current\<close> is
  \<^verbatim>\<open>datetime.date.today().year\<close>.
\<close>

definition calculate_depreciation_factor :: "int \<Rightarrow> int \<Rightarrow> real" where
  "calculate_depreciation_factor current construction_year =
     (let age = max 0 (current - construction_year) in
      if age \<le> 0 then 1.10
      else if age \<le> 5 then 1.00
      else if age \<le> 10 then 0.85
      else if age \<le> 20 then 0.70
      else 0.55)"

text \<open>
  \<^verbatim>\<open>calculate_estimate(self, params)\<close>. \<open>config\<close> is \<^verbatim>\<open>self.config\<close>, \<open>current\<close> the
  current year and \<open>variance\<close> the value of \<^verbatim>\<open>np.random.uniform(0.97, 1.03)\<close>. The
  \<^verbatim>\<open>except\<close> clause logs and raises the same exception again, so an exception of the body
  is the result. The keys are read in the order of the source; each assignment to
  \<^verbatim>\<open>features\<close> and to \<^verbatim>\<open>total\<close> binds a new name.
\<close>

definition calculate_estimate ::
    "MarketConfig \<Rightarrow> int \<Rightarrow> real \<Rightarrow> params \<Rightarrow> error + estimate" where
  "calculate_estimate config current variance params =
    (case subscript (location params) ''location'' of Inl e \<Rightarrow> Inl e | Inr loc \<Rightarrow>
    (let base = dict_get BASE_RATES loc 50000 in
    (case subscript (road_width params) ''road_width'' of Inl e \<Rightarrow> Inl e | Inr rw \<Rightarrow>
    (let road_f = dict_get (ROAD_WIDTH_FACTORS config) rw 1.0 in
    (case subscript (area params) ''area'' of Inl e \<Rightarrow> Inl e | Inr a \<Rightarrow>
    (let land_value = real_of_int base * road_f * real_of_int a in
    (case subscript (type params) ''type'' of Inl e \<Rightarrow> Inl e | Inr ty \<Rightarrow>
    (case
       (if ty = ''Residential'' then
          (case subscript (bedrooms params) ''bedrooms'' of Inl e \<Rightarrow> Inl e | Inr beds \<Rightarrow>
          (let raw_struct = beds * ROOM_PREMIUM config in
          (case subscript (quality params) ''quality'' of Inl e \<Rightarrow> Inl e | Inr q \<Rightarrow>
          (let quality_mult = dict_get (QUALITY_MULTIPLIERS config) q 1.0 in
          (case subscript (year_built params) ''year_built'' of Inl e \<Rightarrow> Inl e | Inr yb \<Rightarrow>
          (let depreciation = calculate_depreciation_factor current yb in
           Inr (real_of_int raw_struct * quality_mult * depreciation, depreciation)))))))
        else Inr (0.0, 1.0))
     of Inl e \<Rightarrow> Inl e | Inr (structure_value, depreciation) \<Rightarrow>
    (let features0 = 0.0;
         features1 = (if truthy (is_corner params) then features0 + land_value * 0.15
                      else features0);
         features2 = (if truthy (is_park params) then features1 + land_value * 0.10
                      else features1);
         features3 = (if truthy (is_west_open params) then features2 + land_value * 0.05
                      else features2);
         total0 = land_value + structure_value + features3;
         total = (if ty = ''Commercial'' then total0 * COMMERCIAL_MULTIPLIER config
                  else total0);
         final = total * variance
     in Inr \<lparr>price = final,
             breakdown = \<lparr>base_rate = base, land = land_value,
                          structure = structure_value, features = features3,
                          depreciation_factor = depreciation,
                          pre_variance = total\<rparr>\<rparr>)))))))))"

subsection \<open>The forecast generator\<close>
















subsection \<open>The report formatter\<close>

text \<open>
  The format specification \<^verbatim>\<open>,.0f\<close>: the amount is rounded to a whole number, a tie going
  to the even neighbour; the digits are written in groups of three, counted from the
  right and separated by commas; a negative amount keeps its sign, also when it rounds
  to zero.
\<close>

definition round_half_even :: "real \<Rightarrow> int" where
  "round_half_even x =
     (let f = \<lfloor>x\<rfloor>; d = x - of_int f in
      if d < 1 / 2 then f else if 1 / 2 < d then f + 1 else if even f then f else f + 1)"

definition digit_char :: "nat \<Rightarrow> char" where
  "digit_char d = ''0123456789'' ! d"

fun digits_of :: "nat \<Rightarrow> string" where
  "digits_of n =
     (if n < 10 then [digit_char n] else digits_of (n div 10) @ [digit_char (n mod 10)])"

declare digits_of.simps [simp del]

text \<open>Grouping works on the digits in reverse order, least significant digit first.\<close>

fun group3 :: "string \<Rightarrow> string" where
  "group3 (a # b # c # d # rest) = a # b # c # CHR '','' # group3 (d # rest)"
| "group3 digits = digits"

definition format_comma_0f :: "real \<Rightarrow> string" where
  "format_comma_0f x =
     (if x < 0 then ''-'' else '''') @
     rev (group3 (rev (digits_of (nat (round_half_even \<bar>x\<bar>)))))"

text \<open>\<^verbatim>\<open>format_pk(amount)\<close>\<close>

definition format_pk :: "real \<Rightarrow> real \<times> real \<times> string" where
  "format_pk amount =
     (let crore = amount / 10000000;
          lakh = amount / 100000
      in (crore, lakh, ''PKR '' @ format_comma_0f amount))"

subsection \<open>Notions of the specification\<close>

text \<open>
  A request is well formed when it holds every key that \<open>calculate_estimate\<close> reads for
  its property type.
\<close>

definition has_required_keys :: "params \<Rightarrow> bool" where
  "has_required_keys p \<longleftrightarrow>
     location p \<noteq> None \<and> road_width p \<noteq> None \<and> area p \<noteq> None \<and> type p \<noteq> None \<and>
     (type p = Some ''Residential'' \<longrightarrow>
        bedrooms p \<noteq> None \<and> quality p \<noteq> None \<and> year_built p \<noteq> None)"

text \<open>The depreciation curve as the specification tabulates it, by age.\<close>

definition spec_depreciation :: "int \<Rightarrow> real" where
  "spec_depreciation age =
     (if age \<le> 0 then 1.10
      else if 0 < age \<and> age \<le> 5 then 1.00
      else if 5 < age \<and> age \<le> 10 then 0.85
      else if 10 < age \<and> age \<le> 20 then 0.70
      else 0.55)"

text \<open>
  The request of the specification's worked example, for a property type and a
  construction year.
\<close>

definition example_params :: "string \<Rightarrow> int \<Rightarrow> params" where
  "example_params ty yb =
     \<lparr>location = Some ''DHA Phase 8'', area = Some 240, type = Some ty,
      road_width = Some ''Standard Street (30-40ft)'', year_built = Some yb,
      bedrooms = Some 3, quality = Some ''B (Standard)'', is_corner = Some False,
      is_park = Some False, is_west_open = Some False\<rparr>"




section \<open>Properties of the valuation engine\<close>

subsection \<open>Auxiliary facts\<close>

lemma dict_get_Some: "d k = Some x \<Longrightarrow> dict_get d k dflt = x"
  by (simp add: dict_get_def)

lemma dict_get_None: "d k = None \<Longrightarrow> dict_get d k dflt = dflt"
  by (simp add: dict_get_def)

text \<open>No rate of the table equals the fallback rate.\<close>

lemma BASE_RATES_not_default: "BASE_RATES loc = Some rate \<Longrightarrow> rate \<noteq> 50000"
proof -
  assume "BASE_RATES loc = Some rate"
  then have "(loc, rate) \<in> set BASE_RATES_items"
    unfolding BASE_RATES_def dict_def by (auto dest: map_of_SomeD)
  then have "rate \<in> snd ` set BASE_RATES_items" by force
  then show ?thesis
    by (auto simp: BASE_RATES_items_def MARKET_CLUSTERS_def)
qed

lemma BASE_RATES_DHA_Phase_8: "BASE_RATES ''DHA Phase 8'' = Some 190000"
  by (simp add: BASE_RATES_def BASE_RATES_items_def MARKET_CLUSTERS_def dict_def)

lemma BASE_RATES_Atlantis: "BASE_RATES ''Atlantis'' = None"
  by (simp add: BASE_RATES_def BASE_RATES_items_def MARKET_CLUSTERS_def dict_def)

text \<open>The result of a residential request and of any other request, in closed form.\<close>

lemma calculate_estimate_residential:
  fixes cfg :: MarketConfig
  defines "B loc \<equiv> dict_get BASE_RATES loc 50000"
  defines "L loc rw a \<equiv>
     real_of_int (B loc) * dict_get (ROAD_WIDTH_FACTORS cfg) rw 1.0 * real_of_int a"
  defines "F p l \<equiv> (if truthy (is_corner p) then l * 0.15 else 0) +
                    (if truthy (is_park p) then l * 0.10 else 0) +
                    (if truthy (is_west_open p) then l * 0.05 else 0)"
  defines "D cur yb \<equiv> calculate_depreciation_factor cur yb"
  defines "S cur b q yb \<equiv>
     real_of_int (b * ROOM_PREMIUM cfg) * dict_get (QUALITY_MULTIPLIERS cfg) q 1.0 * D cur yb"
  assumes "location p = Some loc" "road_width p = Some rw" "area p = Some a"
    "type p = Some ''Residential''" "bedrooms p = Some b" "quality p = Some q"
    "year_built p = Some yb"
  shows "calculate_estimate cfg cur v p =
     Inr \<lparr>price = (L loc rw a + S cur b q yb + F p (L loc rw a)) * v,
          breakdown = \<lparr>base_rate = B loc, land = L loc rw a, structure = S cur b q yb,
                       features = F p (L loc rw a), depreciation_factor = D cur yb,
                       pre_variance = L loc rw a + S cur b q yb + F p (L loc rw a)\<rparr>\<rparr>"
  using assms(6-)
  by (simp add: calculate_estimate_def subscript_def Let_def B_def L_def F_def D_def S_def)

lemma calculate_estimate_other:
  fixes cfg :: MarketConfig
  defines "B loc \<equiv> dict_get BASE_RATES loc 50000"
  defines "L loc rw a \<equiv>
     real_of_int (B loc) * dict_get (ROAD_WIDTH_FACTORS cfg) rw 1.0 * real_of_int a"
  defines "F p l \<equiv> (if truthy (is_corner p) then l * 0.15 else 0) +
                    (if truthy (is_park p) then l * 0.10 else 0) +
                    (if truthy (is_west_open p) then l * 0.05 else 0)"
  defines "U ty \<equiv> (if ty = ''Commercial'' then COMMERCIAL_MULTIPLIER cfg else 1)"
  assumes "location p = Some loc" "road_width p = Some rw" "area p = Some a"
    "type p = Some ty" "ty \<noteq> ''Residential''"
  shows "calculate_estimate cfg cur v p =
     Inr \<lparr>price = (L loc rw a + F p (L loc rw a)) * U ty * v,
          breakdown = \<lparr>base_rate = B loc, land = L loc rw a, structure = 0,
                       features = F p (L loc rw a), depreciation_factor = 1,
                       pre_variance = (L loc rw a + F p (L loc rw a)) * U ty\<rparr>\<rparr>"
  using assms(5-)
  by (simp add: calculate_estimate_def subscript_def Let_def B_def L_def F_def U_def)

text \<open>
  The engine returns a result exactly for the well-formed requests; every other request
  ends in the \<open>KeyError\<close> of the first key it misses.
\<close>

lemma calculate_estimate_Inr_iff:
  "(\<exists>r. calculate_estimate cfg cur v p = Inr r) \<longleftrightarrow> has_required_keys p"
  by (auto simp: has_required_keys_def calculate_estimate_def subscript_def Let_def
        split: option.splits if_splits)

text \<open>The fields of the result of a well-formed request, each in terms of the others.\<close>

lemma calculate_estimate_fields:
  assumes "has_required_keys p"
  shows "\<exists>r loc rw a ty.
     calculate_estimate cfg cur v p = Inr r \<and>
     location p = Some loc \<and> road_width p = Some rw \<and> area p = Some a \<and> type p = Some ty \<and>
     base_rate (breakdown r) = dict_get BASE_RATES loc 50000 \<and>
     land (breakdown r) =
       real_of_int (base_rate (breakdown r)) * dict_get (ROAD_WIDTH_FACTORS cfg) rw 1.0 *
       real_of_int a \<and>
     (ty = ''Residential'' \<longrightarrow>
        (\<exists>b q yb. bedrooms p = Some b \<and> quality p = Some q \<and> year_built p = Some yb \<and>
           depreciation_factor (breakdown r) = calculate_depreciation_factor cur yb \<and>
           structure (breakdown r) =
             real_of_int (b * ROOM_PREMIUM cfg) * dict_get (QUALITY_MULTIPLIERS cfg) q 1.0 *
             depreciation_factor (breakdown r))) \<and>
     (ty \<noteq> ''Residential'' \<longrightarrow>
        structure (breakdown r) = 0 \<and> depreciation_factor (breakdown r) = 1) \<and>
     features (breakdown r) =
        (if truthy (is_corner p) then land (breakdown r) * 0.15 else 0) +
        (if truthy (is_park p) then land (breakdown r) * 0.10 else 0) +
        (if truthy (is_west_open p) then land (breakdown r) * 0.05 else 0) \<and>
     pre_variance (breakdown r) =
        (land (breakdown r) + structure (breakdown r) + features (breakdown r)) *
        (if ty = ''Commercial'' then COMMERCIAL_MULTIPLIER cfg else 1) \<and>
     price r = pre_variance (breakdown r) * v"
proof -
  from assms obtain loc rw a ty where
    f: "location p = Some loc" "road_width p = Some rw" "area p = Some a" "type p = Some ty"
    by (auto simp: has_required_keys_def)
  show ?thesis
  proof (cases "ty = ''Residential''")
    case True
    with assms f obtain b q yb where
      g: "bedrooms p = Some b" "quality p = Some q" "year_built p = Some yb"
      by (auto simp: has_required_keys_def)
    from True f have ty: "type p = Some ''Residential''" by simp
    show ?thesis
      unfolding calculate_estimate_residential [OF f(1-3) ty g]
      using f g True by simp
  next
    case False
    show ?thesis
      unfolding calculate_estimate_other [OF f False]
      using f False by simp
  qed
qed

text \<open>The breakdown, or the error, does not depend on the jitter.\<close>

lemma breakdown_independent_of_variance:
  "map_sum id breakdown (calculate_estimate cfg cur v1 p) =
   map_sum id breakdown (calculate_estimate cfg cur v2 p)"
  by (simp add: calculate_estimate_def subscript_def Let_def
        split: option.splits sum.splits prod.splits)

text \<open>The breakdown of a commercial request, in closed form.\<close>

lemma commercial_breakdown:
  assumes "type p = Some ''Commercial''"
  shows "map_sum id breakdown (calculate_estimate cfg cur v p) =
    (case location p of None \<Rightarrow> Inl (KeyError ''location'') | Some loc \<Rightarrow>
     (case road_width p of None \<Rightarrow> Inl (KeyError ''road_width'') | Some rw \<Rightarrow>
     (case area p of None \<Rightarrow> Inl (KeyError ''area'') | Some a \<Rightarrow>
     (let l = real_of_int (dict_get BASE_RATES loc 50000) *
              dict_get (ROAD_WIDTH_FACTORS cfg) rw 1.0 * real_of_int a;
          f = (if truthy (is_corner p) then l * 0.15 else 0) +
              (if truthy (is_park p) then l * 0.10 else 0) +
              (if truthy (is_west_open p) then l * 0.05 else 0)
      in Inr \<lparr>base_rate = dict_get BASE_RATES loc 50000, land = l, structure = 0,
               features = f, depreciation_factor = 1,
               pre_variance = (l + f) * COMMERCIAL_MULTIPLIER cfg\<rparr>))))"
  using assms
  by (simp add: calculate_estimate_def subscript_def Let_def split: option.splits)

text \<open>The worked example, for any construction year.\<close>

lemma example_params_required: "has_required_keys (example_params ty yb)"
  by (simp add: has_required_keys_def example_params_def)

lemma example_Residential:
  "calculate_estimate MarketConfig_default cur v (example_params ''Residential'' yb) =
     Inr \<lparr>price = (45600000 + 3600000 * calculate_depreciation_factor cur yb) * v,
          breakdown = \<lparr>base_rate = 190000, land = 45600000,
                       structure = 3600000 * calculate_depreciation_factor cur yb,
                       features = 0,
                       depreciation_factor = calculate_depreciation_factor cur yb,
                       pre_variance =
                         45600000 + 3600000 * calculate_depreciation_factor cur yb\<rparr>\<rparr>"
  by (simp add: calculate_estimate_def example_params_def subscript_def dict_get_def
        BASE_RATES_DHA_Phase_8 MarketConfig_default_def dict_def truthy_def Let_def)


subsection \<open>Table lookups\<close>

text \<open>
  Claim C1. For every well-formed request the engine returns a result, whatever the
  location, the road-width label and the quality tier are: a location that is a key of
  \<open>BASE_RATES\<close> gets the rate of the table, which is never the fallback rate 50000; any
  other location gets 50000; a road-width label that is not a key of the road table
  gives the factor 1.0 in the land value, and for a residential request a quality tier
  that is not a key of the quality table gives the multiplier 1.0 in the structure
  value.
\<close>

theorem table_lookups_never_fail:
  assumes "has_required_keys p"
  shows "\<exists>r loc rw a. calculate_estimate cfg cur v p = Inr r \<and>
     location p = Some loc \<and> road_width p = Some rw \<and> area p = Some a \<and>
     (\<forall>rate. BASE_RATES loc = Some rate \<longrightarrow>
        base_rate (breakdown r) = rate \<and> rate \<noteq> 50000) \<and>
     (BASE_RATES loc = None \<longrightarrow> base_rate (breakdown r) = 50000) \<and>
     (ROAD_WIDTH_FACTORS cfg rw = None \<longrightarrow>
        land (breakdown r) = real_of_int (base_rate (breakdown r)) * 1.0 * real_of_int a) \<and>
     (\<forall>b q. type p = Some ''Residential'' \<and> bedrooms p = Some b \<and> quality p = Some q \<and>
            QUALITY_MULTIPLIERS cfg q = None \<longrightarrow>
        structure (breakdown r) =
          real_of_int (b * ROOM_PREMIUM cfg) * 1.0 * depreciation_factor (breakdown r))"
proof -
  from calculate_estimate_fields [OF assms, of cfg cur v]
  obtain r loc rw a ty where r: "calculate_estimate cfg cur v p = Inr r"
    and f: "location p = Some loc" "road_width p = Some rw" "area p = Some a"
      "type p = Some ty"
    and b: "base_rate (breakdown r) = dict_get BASE_RATES loc 50000"
    and l: "land (breakdown r) =
       real_of_int (base_rate (breakdown r)) * dict_get (ROAD_WIDTH_FACTORS cfg) rw 1.0 *
       real_of_int a"
    and s: "ty = ''Residential'' \<longrightarrow>
        (\<exists>b q yb. bedrooms p = Some b \<and> quality p = Some q \<and> year_built p = Some yb \<and>
           depreciation_factor (breakdown r) = calculate_depreciation_factor cur yb \<and>
           structure (breakdown r) =
             real_of_int (b * ROOM_PREMIUM cfg) * dict_get (QUALITY_MULTIPLIERS cfg) q 1.0 *
             depreciation_factor (breakdown r))"
    by blast
  have 1: "\<forall>rate. BASE_RATES loc = Some rate \<longrightarrow>
        base_rate (breakdown r) = rate \<and> rate \<noteq> 50000"
    using b by (auto simp: dict_get_Some dest: BASE_RATES_not_default)
  have 2: "BASE_RATES loc = None \<longrightarrow> base_rate (breakdown r) = 50000"
    using b by (simp add: dict_get_None)
  have 3: "ROAD_WIDTH_FACTORS cfg rw = None \<longrightarrow>
        land (breakdown r) = real_of_int (base_rate (breakdown r)) * 1.0 * real_of_int a"
    using l by (simp add: dict_get_None)
  have 4: "\<forall>b q. type p = Some ''Residential'' \<and> bedrooms p = Some b \<and>
            quality p = Some q \<and> QUALITY_MULTIPLIERS cfg q = None \<longrightarrow>
        structure (breakdown r) =
          real_of_int (b * ROOM_PREMIUM cfg) * 1.0 * depreciation_factor (breakdown r)"
    using s f(4) by (auto simp: dict_get_None)
  show ?thesis
    by (intro exI [of _ r] exI [of _ loc] exI [of _ rw] exI [of _ a] conjI r f(1-3) 1 2 3 4)
qed

theorem table_lookups_never_fail_witness:
  "has_required_keys (example_params ''Residential'' 2020) \<and>
   (\<exists>r. calculate_estimate MarketConfig_default 2025 1 (example_params ''Residential'' 2020)
           = Inr r \<and>
        base_rate (breakdown r) = 190000) \<and>
   has_required_keys
     ((example_params ''Residential'' 2020)
        \<lparr>location := Some ''Atlantis'', road_width := Some ''Footpath'',
         quality := Some ''Z''\<rparr>) \<and>
   (\<exists>r. calculate_estimate MarketConfig_default 2025 1
           ((example_params ''Residential'' 2020)
              \<lparr>location := Some ''Atlantis'', road_width := Some ''Footpath'',
               quality := Some ''Z''\<rparr>) = Inr r \<and>
        base_rate (breakdown r) = 50000 \<and>
        land (breakdown r) = 50000 * 1.0 * 240 \<and>
        structure (breakdown r) = 3600000 * 1.0 * depreciation_factor (breakdown r))"
proof -
  let ?p = "example_params ''Residential'' 2020"
  let ?q = "?p\<lparr>location := Some ''Atlantis'', road_width := Some ''Footpath'',
               quality := Some ''Z''\<rparr>"
  have kp: "has_required_keys ?p" by (rule example_params_required)
  have kq: "has_required_keys ?q" by (simp add: has_required_keys_def example_params_def)
  have rq: "ROAD_WIDTH_FACTORS MarketConfig_default ''Footpath'' = None"
    "QUALITY_MULTIPLIERS MarketConfig_default ''Z'' = None"
    "ROOM_PREMIUM MarketConfig_default = 1200000"
    by (simp_all add: MarketConfig_default_def dict_def)
  have fp: "location ?p = Some ''DHA Phase 8''" by (simp add: example_params_def)
  have fq: "location ?q = Some ''Atlantis''" "road_width ?q = Some ''Footpath''"
    "area ?q = Some 240" "type ?q = Some ''Residential''" "bedrooms ?q = Some 3"
    "quality ?q = Some ''Z''"
    by (simp_all add: example_params_def)
  from table_lookups_never_fail [OF kp, of MarketConfig_default 2025 1]
  have a: "\<exists>r. calculate_estimate MarketConfig_default 2025 1 ?p = Inr r \<and>
        base_rate (breakdown r) = 190000"
    using fp BASE_RATES_DHA_Phase_8 by auto
  from table_lookups_never_fail [OF kq, of MarketConfig_default 2025 1]
  have b: "\<exists>r. calculate_estimate MarketConfig_default 2025 1 ?q = Inr r \<and>
        base_rate (breakdown r) = 50000 \<and>
        land (breakdown r) = 50000 * 1.0 * 240 \<and>
        structure (breakdown r) = 3600000 * 1.0 * depreciation_factor (breakdown r)"
    unfolding fq using BASE_RATES_Atlantis rq by auto
  from kp a kq b show ?thesis by blast
qed


subsection \<open>Commercial uplift\<close>



subsection \<open>Depreciation\<close>

text \<open>
  Claim C3. The depreciation factor is the step function of the specification applied
  to the age \<open>max 0 (current - construction_year)\<close>, which is never negative: at the ages
  0, 5, 6, 10, 11, 20 and 21 it is 1.10, 1.00, 0.85, 0.85, 0.70, 0.70 and 0.55, and a
  construction year after the current year gives the factor of age 0.
\<close>

theorem depreciation_step_function:
  "calculate_depreciation_factor cur (cur - 0) = 1.10 \<and>
   calculate_depreciation_factor cur (cur - 5) = 1.00 \<and>
   calculate_depreciation_factor cur (cur - 6) = 0.85 \<and>
   calculate_depreciation_factor cur (cur - 10) = 0.85 \<and>
   calculate_depreciation_factor cur (cur - 11) = 0.70 \<and>
   calculate_depreciation_factor cur (cur - 20) = 0.70 \<and>
   calculate_depreciation_factor cur (cur - 21) = 0.55 \<and>
   0 \<le> max 0 (cur - cy) \<and>
   calculate_depreciation_factor cur cy = spec_depreciation (max 0 (cur - cy)) \<and>
   (cur < cy \<longrightarrow> calculate_depreciation_factor cur cy = 1.10)"
  by (simp add: calculate_depreciation_factor_def spec_depreciation_def Let_def)

theorem depreciation_step_function_witness:
  "(2025 :: int) < 2030 \<and> calculate_depreciation_factor 2025 2030 = 1.10 \<and>
   calculate_depreciation_factor 2025 2030 = spec_depreciation (max 0 (2025 - 2030)) \<and>
   calculate_depreciation_factor 2025 2004 = 0.55"
  using depreciation_step_function [of 2025 2030] depreciation_step_function [of 2025 2004]
  by simp

subsection \<open>Feature premiums\<close>



subsection \<open>Jitter\<close>



subsection \<open>The worked example\<close>



subsection \<open>Reproducibility of the breakdown\<close>

text \<open>
  Claim C8, as stated: two calls with the same request return the same breakdown. The
  engine reads the current year, so two calls in different years can differ: the
  residential example request built in 2020 is 5 years old in 2025 (factor 1.00) and 6
  years old in 2026 (factor 0.85).
\<close>

theorem breakdown_depends_on_current_year:
  "map_sum id breakdown
     (calculate_estimate MarketConfig_default 2025 1 (example_params ''Residential'' 2020)) \<noteq>
   map_sum id breakdown
     (calculate_estimate MarketConfig_default 2026 1 (example_params ''Residential'' 2020))"
  by (simp add: example_Residential calculate_depreciation_factor_def)

text \<open>
  Claim C8, amended. For a fixed request, configuration and current year, two calls
  with jitter values \<open>v\<close> and \<open>v'\<close> return the same breakdown (or raise the same error);
  for a well-formed request both return, and the final price of each is its jitter
  value times the common pre-jitter total. Base rate, land value and feature total do
  not depend on the current year either.
\<close>

theorem breakdown_reproducible_in_a_year:
  "map_sum id breakdown (calculate_estimate cfg cur v p) =
   map_sum id breakdown (calculate_estimate cfg cur v' p) \<and>
   (has_required_keys p \<longrightarrow>
     (\<exists>r1 r2. calculate_estimate cfg cur v p = Inr r1 \<and>
        calculate_estimate cfg cur v' p = Inr r2 \<and> breakdown r1 = breakdown r2 \<and>
        price r1 = pre_variance (breakdown r1) * v \<and>
        price r2 = pre_variance (breakdown r2) * v')) \<and>
   map_sum id (\<lambda>r. (base_rate (breakdown r), land (breakdown r), features (breakdown r)))
     (calculate_estimate cfg cur v p) =
   map_sum id (\<lambda>r. (base_rate (breakdown r), land (breakdown r), features (breakdown r)))
     (calculate_estimate cfg cur' v' p)"
proof (intro conjI impI)
  show eq: "map_sum id breakdown (calculate_estimate cfg cur v p) =
    map_sum id breakdown (calculate_estimate cfg cur v' p)"
    by (rule breakdown_independent_of_variance)
  show "map_sum id (\<lambda>r. (base_rate (breakdown r), land (breakdown r), features (breakdown r)))
     (calculate_estimate cfg cur v p) =
   map_sum id (\<lambda>r. (base_rate (breakdown r), land (breakdown r), features (breakdown r)))
     (calculate_estimate cfg cur' v' p)"
    by (simp add: calculate_estimate_def subscript_def Let_def
          split: option.splits sum.splits prod.splits)
  assume k: "has_required_keys p"
  from calculate_estimate_fields [OF k, of cfg cur v]
  obtain r1 where r1: "calculate_estimate cfg cur v p = Inr r1"
    and p1: "price r1 = pre_variance (breakdown r1) * v" by blast
  from calculate_estimate_fields [OF k, of cfg cur v']
  obtain r2 where r2: "calculate_estimate cfg cur v' p = Inr r2"
    and p2: "price r2 = pre_variance (breakdown r2) * v'" by blast
  from eq r1 r2 have "breakdown r1 = breakdown r2" by simp
  with r1 r2 p1 p2
  show "\<exists>r1 r2. calculate_estimate cfg cur v p = Inr r1 \<and>
        calculate_estimate cfg cur v' p = Inr r2 \<and> breakdown r1 = breakdown r2 \<and>
        price r1 = pre_variance (breakdown r1) * v \<and>
        price r2 = pre_variance (breakdown r2) * v'" by blast
qed

theorem breakdown_reproducible_in_a_year_witness:
  "has_required_keys (example_params ''Residential'' 2020) \<and>
   (\<exists>r1 r2. calculate_estimate MarketConfig_default 2025 0.98
               (example_params ''Residential'' 2020) = Inr r1 \<and>
      calculate_estimate MarketConfig_default 2025 1.01
               (example_params ''Residential'' 2020) = Inr r2 \<and>
      breakdown r1 = breakdown r2 \<and> price r1 = 48216000 \<and> price r2 = 49692000)"
proof -
  from breakdown_reproducible_in_a_year
    [where cfg = MarketConfig_default and cur = 2025 and v = "0.98" and v' = "1.01"
       and p = "example_params ''Residential'' 2020"]
    example_params_required [of "''Residential''" 2020]
  have "\<exists>r1 r2. calculate_estimate MarketConfig_default 2025 0.98
               (example_params ''Residential'' 2020) = Inr r1 \<and>
      calculate_estimate MarketConfig_default 2025 1.01
               (example_params ''Residential'' 2020) = Inr r2 \<and>
      breakdown r1 = breakdown r2 \<and> price r1 = 48216000 \<and> price r2 = 49692000"
    by (simp add: example_Residential calculate_depreciation_factor_def)
  with example_params_required show ?thesis by blast
qed

subsection \<open>Commercial requests ignore the structure inputs\<close>

text \<open>
  Claim C10. Two requests of type Commercial that agree on location, area, road width
  and the three feature flags have the same breakdown, and so the same pre-jitter
  total, whatever their bedrooms, quality tier and construction year are, and in
  whatever years and with whatever jitter they are evaluated; every commercial breakdown
  reports structure value 0.0 and depreciation factor 1.0. A commercial request that
  holds location, area and road width returns a result.
\<close>

theorem commercial_ignores_structure_inputs:
  assumes "type p = Some ''Commercial''" and "type p' = Some ''Commercial''"
    and "location p' = location p" and "area p' = area p"
    and "road_width p' = road_width p" and "is_corner p' = is_corner p"
    and "is_park p' = is_park p" and "is_west_open p' = is_west_open p"
  shows "map_sum id breakdown (calculate_estimate cfg cur v p) =
         map_sum id breakdown (calculate_estimate cfg cur' v' p') \<and>
         (\<forall>r. calculate_estimate cfg cur v p = Inr r \<longrightarrow>
            structure (breakdown r) = 0.0 \<and> depreciation_factor (breakdown r) = 1.0) \<and>
         (location p \<noteq> None \<and> area p \<noteq> None \<and> road_width p \<noteq> None \<longrightarrow>
            (\<exists>r. calculate_estimate cfg cur v p = Inr r))"
proof (intro conjI allI impI)
  show "map_sum id breakdown (calculate_estimate cfg cur v p) =
         map_sum id breakdown (calculate_estimate cfg cur' v' p')"
    unfolding commercial_breakdown [OF assms(1)] commercial_breakdown [OF assms(2)]
    by (simp only: assms(3-))
next
  fix r assume r: "calculate_estimate cfg cur v p = Inr r"
  then have "has_required_keys p"
    using calculate_estimate_Inr_iff [of cfg cur v p] by blast
  from calculate_estimate_fields [OF this, of cfg cur v] r assms(1)
  show "structure (breakdown r) = 0.0" and "depreciation_factor (breakdown r) = 1.0"
    by auto
next
  assume "location p \<noteq> None \<and> area p \<noteq> None \<and> road_width p \<noteq> None"
  with assms(1) have "has_required_keys p" by (simp add: has_required_keys_def)
  then show "\<exists>r. calculate_estimate cfg cur v p = Inr r"
    using calculate_estimate_Inr_iff [of cfg cur v p] by blast
qed

theorem commercial_ignores_structure_inputs_witness:
  "type (example_params ''Commercial'' 2020) = Some ''Commercial'' \<and>
   type ((example_params ''Commercial'' 1950)
           \<lparr>bedrooms := Some 12, quality := Some ''A+ (Luxury)''\<rparr>) = Some ''Commercial'' \<and>
   map_sum id breakdown
     (calculate_estimate MarketConfig_default 2025 1 (example_params ''Commercial'' 2020)) =
   map_sum id breakdown
     (calculate_estimate MarketConfig_default 2026 1.03
        ((example_params ''Commercial'' 1950)
           \<lparr>bedrooms := Some 12, quality := Some ''A+ (Luxury)''\<rparr>)) \<and>
   (\<exists>r. calculate_estimate MarketConfig_default 2025 1 (example_params ''Commercial'' 2020)
           = Inr r \<and>
        structure (breakdown r) = 0.0 \<and> depreciation_factor (breakdown r) = 1.0)"
proof -
  let ?p = "example_params ''Commercial'' 2020"
  let ?q = "(example_params ''Commercial'' 1950)
              \<lparr>bedrooms := Some 12, quality := Some ''A+ (Luxury)''\<rparr>"
  have tp: "type ?p = Some ''Commercial''" and tq: "type ?q = Some ''Commercial''"
    and e: "location ?q = location ?p" "area ?q = area ?p" "road_width ?q = road_width ?p"
      "is_corner ?q = is_corner ?p" "is_park ?q = is_park ?p"
      "is_west_open ?q = is_west_open ?p"
    and n: "location ?p \<noteq> None \<and> area ?p \<noteq> None \<and> road_width ?p \<noteq> None"
    by (simp_all add: example_params_def)
  from commercial_ignores_structure_inputs
    [OF tp tq e, where cfg = MarketConfig_default and cur = 2025 and v = 1
       and cur' = 2026 and v' = "1.03"] n
  have "map_sum id breakdown (calculate_estimate MarketConfig_default 2025 1 ?p) =
    map_sum id breakdown (calculate_estimate MarketConfig_default 2026 1.03 ?q) \<and>
    (\<exists>r. calculate_estimate MarketConfig_default 2025 1 ?p = Inr r \<and>
        structure (breakdown r) = 0.0 \<and> depreciation_factor (breakdown r) = 1.0)"
    by blast
  with tp tq show ?thesis by blast
qed


section \<open>Properties of the report formatter\<close>













lemma format_pk_example: "format_pk 49560000 = (4.956, 495.6, ''PKR 49,560,000'')"
  by (simp add: format_pk_def format_comma_0f_def round_half_even_def digits_of.simps
        digit_char_def)

lemma format_pk_negative_tie: "format_pk (- 1234.5) = (- 0.00012345, - 0.012345, ''PKR -1,234'')"
  by (simp add: format_pk_def format_comma_0f_def round_half_even_def digits_of.simps
        digit_char_def)



section \<open>Properties of the forecast generator\<close>













end
